theory Spec2Isabelle
  imports Main "HOL-Library.AList"
begin

section \<open>Data model of the OIDC views (oauth2\_provider/views/oidc.py)\<close>

text \<open>
  The views talk to Django, oauthlib and the rest of the package. What the file
  itself computes is embedded below; what it calls outside the file is a field of
  the record \<open>env\<close>, so every theorem holds for any behaviour of those callees.

  Python's optional strings (\<open>request.GET.get(...)\<close> is \<open>None\<close> or a string) are
  \<open>string option\<close>. A Python condition \<open>if x:\<close> on such a value is \<open>py_truthy x\<close>:
  \<open>None\<close> and the empty string are both false.
\<close>

fun py_truthy :: "string option \<Rightarrow> bool" where
  "py_truthy None = False"
| "py_truthy (Some s) = (s \<noteq> [])"

text \<open>The user of a request: Django's anonymous user, or a stored user by its key.\<close>

datatype user = AnonymousUser | User nat

text \<open>
  An application (the client model). The view reads \<open>client_id\<close> and \<open>client_type\<close>
  and calls \<open>get_allowed_schemes()\<close> and \<open>post_logout_redirect_uri_allowed(uri)\<close>,
  two methods of the model class, which is outside the file. The result of the first
  is the field \<open>allowed_schemes\<close>; the second is \<open>post_logout_redirect_uri_allowed\<close>
  below.
\<close>

record application =
  app_client_id :: string
  client_type :: string
  allowed_schemes :: "string list"
  post_logout_redirect_uris :: "string list"

text \<open>
  Modelled from the spec: the method \<open>Application.post_logout_redirect_uri_allowed\<close>
  of the model class is missing from the sources at hand. The spec (section 4.3, step 6)
  says the URI must be in the client's registered post-logout redirect list, by exact
  match, with no pattern matching and no normalisation of the query string.
\<close>

definition post_logout_redirect_uri_allowed :: "application \<Rightarrow> string \<Rightarrow> bool" where
  "post_logout_redirect_uri_allowed app uri = (uri \<in> set (post_logout_redirect_uris app))"

text \<open>A loaded ID token: the view reads its \<open>user\<close> and its \<open>application\<close>.\<close>

record id_token =
  token_user :: user
  token_application :: application

text \<open>
  Exceptions. The first five are the package's \<open>OIDCError\<close> classes imported by the
  view; \<open>DoesNotExist\<close> is what Django's \<open>objects.get\<close> raises when no row matches,
  \<open>AttributeError\<close> is Python's error for a method call on \<open>None\<close>,
  \<open>InvalidJWSObject\<close> is what the token loader lets through for a hint that is not a
  serialised token at all, and \<open>DisallowedRedirect\<close> is what the constructor of the
  redirect response raises for a target it refuses.
\<close>

datatype exn =
    InvalidIDTokenError
  | ClientIdMissmatch
  | InvalidOIDCClientError
  | InvalidOIDCRedirectURIError string
  | LogoutDenied
  | DoesNotExist
  | AttributeError
  | InvalidJWSObject
  | DisallowedRedirect

text \<open>
  \<open>except OIDCError\<close> catches an exception when it is an instance of \<open>OIDCError\<close>.
  Modelled from the spec: the module \<open>exceptions\<close> is missing from the sources at hand;
  the taxonomy of section 7 lists the five kinds of logout failure, which are the five
  classes the view imports beside \<open>OIDCError\<close>. Django's \<open>DoesNotExist\<close> and
  \<open>DisallowedRedirect\<close>, Python's \<open>AttributeError\<close> and jwcrypto's \<open>InvalidJWSObject\<close>
  are not among them.
\<close>

fun is_OIDCError :: "exn \<Rightarrow> bool" where
  "is_OIDCError InvalidIDTokenError = True"
| "is_OIDCError ClientIdMissmatch = True"
| "is_OIDCError InvalidOIDCClientError = True"
| "is_OIDCError (InvalidOIDCRedirectURIError msg) = True"
| "is_OIDCError LogoutDenied = True"
| "is_OIDCError DoesNotExist = False"
| "is_OIDCError AttributeError = False"
| "is_OIDCError InvalidJWSObject = False"
| "is_OIDCError DisallowedRedirect = False"

text \<open>
  The settings the views read (\<open>oauth2_settings\<close>, the fields in capitals; an unset
  string setting is the empty string), and the callees outside the file:
  \<^item> \<open>load_id_token\<close>: the validator's \<open>_load_id_token\<close>. It returns the stored
    token, or \<open>None\<close> for a serialised token that does not verify, has expired or is
    not stored; for a hint that is no serialised token it raises (\<open>Inl\<close>);
  \<^item> \<open>objects_get\<close>: \<open>get_application_model().objects.get(client_id=...)\<close>; \<open>None\<close>
    stands for no matching row, where Django raises \<open>DoesNotExist\<close> (the client
    identifier is unique, so at most one row matches);
  \<^item> \<open>urlparse_scheme\<close>, \<open>urlparse_netloc\<close>: the fields \<open>scheme\<close> and \<open>netloc\<close> of the
    standard library's \<open>urlparse\<close>;
  \<^item> \<open>add_params_to_uri\<close>: oauthlib's function of that name;
  \<^item> \<open>redirect_refused\<close>: whether the constructor
    \<open>OAuth2ResponseRedirect(redirect_to, allowed_schemes)\<close> of the package's module
    \<open>http\<close> raises \<open>DisallowedRedirect\<close> (it checks the target against the schemes);
  \<^item> \<open>build_absolute_uri\<close>, \<open>reverse\<close>, \<open>oidc_issuer\<close>: the request's method, Django's
    URL reversal and the settings' issuer for the request;
  \<^item> \<open>status_code\<close>: the attribute \<open>status_code\<close> of an exception class;
  \<^item> \<open>get_discovery_claims\<close>, \<open>get_available_scopes\<close>: what the validator and the
    scopes backend return;
  \<^item> \<open>thumbprint\<close>, \<open>export_public\<close>: jwcrypto's thumbprint and public export (the
    parsed JSON object) of the key read from a PEM text.

  The token loader, the lookup and the redirect constructor can raise, as said above.
  The other callees are taken as functions that return: an exception raised inside one
  of them is outside this model.
\<close>

record env =
  OIDC_RP_INITIATED_LOGOUT_ALWAYS_PROMPT :: bool
  OIDC_RP_INITIATED_LOGOUT_ENABLED :: bool
  ALLOWED_REDIRECT_URI_SCHEMES :: "string list"
  OIDC_ISS_ENDPOINT :: string
  OIDC_USERINFO_ENDPOINT :: string
  OIDC_RSA_PRIVATE_KEY :: string
  OIDC_RSA_PRIVATE_KEYS_INACTIVE :: "string list"
  OIDC_JWKS_MAX_AGE_SECONDS :: int
  OIDC_RESPONSE_TYPES_SUPPORTED :: "string list"
  OIDC_SUBJECT_TYPES_SUPPORTED :: "string list"
  OIDC_TOKEN_ENDPOINT_AUTH_METHODS_SUPPORTED :: "string list"
  load_id_token :: "string \<Rightarrow> exn + id_token option"
  objects_get :: "string \<Rightarrow> application option"
  urlparse_scheme :: "string \<Rightarrow> string"
  urlparse_netloc :: "string \<Rightarrow> string"
  add_params_to_uri :: "string \<Rightarrow> (string \<times> string) list \<Rightarrow> string"
  redirect_refused :: "string \<Rightarrow> string list \<Rightarrow> bool"
  build_absolute_uri :: "string \<Rightarrow> string"
  reverse :: "string \<Rightarrow> string"
  oidc_issuer :: string
  status_code :: "exn \<Rightarrow> nat"
  get_discovery_claims :: "string list"
  get_available_scopes :: "string list"
  thumbprint :: "string \<Rightarrow> string"
  export_public :: "string \<Rightarrow> (string \<times> string) list"

section \<open>validate\_logout\_request\<close>

text \<open>
  The function runs three blocks in sequence; an exception raised in one ends the call.

  First block (source lines 161 to 179): load and check the ID token hint. The result
  is the pair of the locals \<open>id_token\<close> and \<open>must_prompt_logout\<close>.
\<close>

definition check_id_token_hint ::
  "env \<Rightarrow> user \<Rightarrow> string option \<Rightarrow> string option \<Rightarrow> exn + (id_token option \<times> bool)" where
  "check_id_token_hint e usr id_token_hint client_id =
    (case id_token_hint of
       None \<Rightarrow> Inr (None, True)
     | Some hint \<Rightarrow>
         if hint = [] then Inr (None, True)
         else
           (case load_id_token e hint of
              Inl err \<Rightarrow> Inl err
            | Inr None \<Rightarrow> Inl InvalidIDTokenError
            | Inr (Some tok) \<Rightarrow>
                (case client_id of
                   None \<Rightarrow> Inr (Some tok, token_user tok \<noteq> usr)
                 | Some cid \<Rightarrow>
                     if cid \<noteq> [] \<and> app_client_id (token_application tok) \<noteq> cid
                     then Inl ClientIdMissmatch
                     else Inr (Some tok, token_user tok \<noteq> usr))))"

text \<open>
  Second block (lines 185 to 190): the application that requests the logout, by the
  client identifier when one is given, else from the ID token, else none.
\<close>

definition requesting_application ::
  "env \<Rightarrow> string option \<Rightarrow> id_token option \<Rightarrow> exn + application option" where
  "requesting_application e client_id tok =
    (case client_id of
       None \<Rightarrow> Inr (map_option token_application tok)
     | Some cid \<Rightarrow>
         if cid = [] then Inr (map_option token_application tok)
         else
           (case objects_get e cid of
              None \<Rightarrow> Inl DoesNotExist
            | Some app \<Rightarrow> Inr (Some app)))"

text \<open>Third block (lines 192 to 204): the checks of \<open>post_logout_redirect_uri\<close>.\<close>

definition check_post_logout_redirect_uri ::
  "env \<Rightarrow> string option \<Rightarrow> application option \<Rightarrow> exn + unit" where
  "check_post_logout_redirect_uri e post_logout_redirect_uri appl =
    (case post_logout_redirect_uri of
       None \<Rightarrow> Inr ()
     | Some uri \<Rightarrow>
         if uri = [] then Inr ()
         else
           (case appl of
              None \<Rightarrow> Inl InvalidOIDCClientError
            | Some app \<Rightarrow>
                let scheme = urlparse_scheme e uri in
                if scheme = [] then
                  Inl (InvalidOIDCRedirectURIError ''A Scheme is required for the redirect URI.'')
                else if scheme = ''http'' \<and> client_type app \<noteq> ''confidential'' then
                  Inl (InvalidOIDCRedirectURIError ''http is only allowed with confidential clients.'')
                else if scheme \<notin> set (allowed_schemes app) then
                  Inl (InvalidOIDCRedirectURIError
                         (''Redirect to scheme '' @ [CHR 0x22] @ scheme @ [CHR 0x22] @ '' is not permitted.''))
                else if \<not> post_logout_redirect_uri_allowed app uri then
                  Inl (InvalidOIDCRedirectURIError
                         ''This client does not have this redirect uri registered.'')
                else Inr ()))"

text \<open>
  The whole function. It returns \<open>(prompt_logout, (post_logout_redirect_uri,
  application))\<close>; the URI is handed back as it came in.
\<close>

definition validate_logout_request ::
  "env \<Rightarrow> user \<Rightarrow> string option \<Rightarrow> string option \<Rightarrow> string option
     \<Rightarrow> exn + (bool \<times> (string option \<times> application option))" where
  "validate_logout_request e usr id_token_hint client_id post_logout_redirect_uri =
    (case check_id_token_hint e usr id_token_hint client_id of
       Inl err \<Rightarrow> Inl err
     | Inr (tok, must_prompt_logout) \<Rightarrow>
         (case requesting_application e client_id tok of
            Inl err \<Rightarrow> Inl err
          | Inr appl \<Rightarrow>
              (case check_post_logout_redirect_uri e post_logout_redirect_uri appl of
                 Inl err \<Rightarrow> Inl err
               | Inr u \<Rightarrow>
                   Inr (must_prompt_logout \<or> OIDC_RP_INITIATED_LOGOUT_ALWAYS_PROMPT e,
                        (post_logout_redirect_uri, appl)))))"

section \<open>RPInitiatedLogoutView\<close>

text \<open>
  The state a view call can change is the request: \<open>django.contrib.auth.logout\<close> ends
  the session and makes the request's user anonymous. \<open>logout_calls\<close> counts the calls
  of \<open>logout\<close> on the request, so that a call is visible even on a request that was
  anonymous already. \<open>GET\<close> is the query dictionary.
\<close>

record request =
  request_user :: user
  GET :: "string \<Rightarrow> string option"
  logout_calls :: nat

definition logout :: "request \<Rightarrow> request" where
  "logout req = req\<lparr>request_user := AnonymousUser, logout_calls := Suc (logout_calls req)\<rparr>"

text \<open>The submitted confirmation form: its cleaned fields, and the field \<open>allow\<close>.\<close>

record form =
  cleaned_data :: "string \<Rightarrow> string option"
  allow :: bool

text \<open>
  What a view returns: a redirect with its allowed schemes, the rendered error (the
  context \<open>{"error": error}\<close> and the status), or the rendered confirmation page (the
  retained \<open>oidc_data\<close> that fills the form, and the application when there is one).
\<close>

datatype response =
    OAuth2ResponseRedirect string "string list"
  | ErrorResponse exn nat
  | ConfirmResponse "(string \<times> string option) list" "application option"

text \<open>
  A view call yields a response or lets an exception escape (\<open>Inl\<close>), and the request as
  the call leaves it.
\<close>

type_synonym view_result = "(exn + response) \<times> request"

definition error_response :: "env \<Rightarrow> exn \<Rightarrow> response" where
  "error_response e err = ErrorResponse err (status_code e err)"

text \<open>
  The call \<open>OAuth2ResponseRedirect(redirect_to, allowed_schemes)\<close>: the response, unless
  the constructor refuses the target.
\<close>

definition OAuth2ResponseRedirect_init :: "env \<Rightarrow> string \<Rightarrow> string list \<Rightarrow> exn + response" where
  "OAuth2ResponseRedirect_init e redirect_to schemes =
    (if redirect_refused e redirect_to schemes then Inl DisallowedRedirect
     else Inr (OAuth2ResponseRedirect redirect_to schemes))"

text \<open>
  \<open>do_logout\<close>: the call of \<open>logout\<close> comes first, then the redirect is built. With a
  redirect URI and no application, \<open>application.get_allowed_schemes()\<close> is a call on
  \<open>None\<close>. An exception raised while the redirect is built leaves the view with the
  session already ended.
\<close>

definition do_logout ::
  "env \<Rightarrow> request \<Rightarrow> application option \<Rightarrow> string option \<Rightarrow> string option \<Rightarrow> view_result" where
  "do_logout e req appl post_logout_redirect_uri state =
    (let req' = logout req;
         root = OAuth2ResponseRedirect_init e (build_absolute_uri e ''/'')
                  (ALLOWED_REDIRECT_URI_SCHEMES e)
     in
       (case post_logout_redirect_uri of
          None \<Rightarrow> (root, req')
        | Some uri \<Rightarrow>
            if uri = [] then (root, req')
            else
              (case appl of
                 None \<Rightarrow> (Inl AttributeError, req')
               | Some app \<Rightarrow>
                   (case state of
                      None \<Rightarrow> (OAuth2ResponseRedirect_init e uri (allowed_schemes app), req')
                    | Some st \<Rightarrow>
                        if st = [] then
                          (OAuth2ResponseRedirect_init e uri (allowed_schemes app), req')
                        else
                          (OAuth2ResponseRedirect_init e
                             (add_params_to_uri e uri [(''state'', st)])
                             (allowed_schemes app), req')))))"

text \<open>
  \<open>except OIDCError as error: return self.error_response(error)\<close>, around a
  computation: an \<open>OIDCError\<close> becomes the error response, any other exception escapes.
\<close>

definition except_OIDCError :: "env \<Rightarrow> view_result \<Rightarrow> view_result" where
  "except_OIDCError e r =
    (case fst r of
       Inl err \<Rightarrow> if is_OIDCError err then (Inr (error_response e err), snd r) else r
     | Inr resp \<Rightarrow> r)"

text \<open>\<open>get\<close>: only the validation stands inside the \<open>try\<close>.\<close>

definition get :: "env \<Rightarrow> request \<Rightarrow> view_result" where
  "get e req =
    (let id_token_hint = GET req ''id_token_hint'';
         client_id = GET req ''client_id'';
         post_logout_redirect_uri = GET req ''post_logout_redirect_uri'';
         state = GET req ''state''
     in
       (case validate_logout_request e (request_user req) id_token_hint client_id
               post_logout_redirect_uri of
          Inl err \<Rightarrow> except_OIDCError e (Inl err, req)
        | Inr (prompt, (redirect_uri, appl)) \<Rightarrow>
            if \<not> prompt then do_logout e req appl redirect_uri state
            else
              (Inr (ConfirmResponse
                      [(''id_token_hint'', id_token_hint),
                       (''client_id'', client_id),
                       (''post_logout_redirect_uri'', post_logout_redirect_uri),
                       (''state'', state)]
                      appl), req)))"

text \<open>\<open>form_valid\<close>: validation, \<open>do_logout\<close> and \<open>raise LogoutDenied()\<close> all stand inside the \<open>try\<close>.\<close>

definition form_valid :: "env \<Rightarrow> request \<Rightarrow> form \<Rightarrow> view_result" where
  "form_valid e req frm =
    (let id_token_hint = cleaned_data frm ''id_token_hint'';
         client_id = cleaned_data frm ''client_id'';
         post_logout_redirect_uri = cleaned_data frm ''post_logout_redirect_uri'';
         state = cleaned_data frm ''state''
     in
       except_OIDCError e
         (case validate_logout_request e (request_user req) id_token_hint client_id
                 post_logout_redirect_uri of
            Inl err \<Rightarrow> (Inl err, req)
          | Inr (prompt, (redirect_uri, appl)) \<Rightarrow>
              if \<not> prompt \<or> allow frm then do_logout e req appl redirect_uri state
              else (Inl LogoutDenied, req)))"

section \<open>JwksInfoView and ConnectDiscoveryInfoView\<close>

text \<open>JSON values as far as the two documents need them, and a JSON response.\<close>

datatype json = JString string | JList "json list" | JObject "(string \<times> json) list"

record json_response =
  data :: json
  headers :: "(string \<times> string) list"

text \<open>
  \<open>JsonResponse(data)\<close> carries the content type; \<open>response[name] = value\<close> sets a
  header, replacing an earlier value of that name.
\<close>

definition JsonResponse :: "json \<Rightarrow> json_response" where
  "JsonResponse d = \<lparr>data = d, headers = [(''Content-Type'', ''application/json'')]\<rparr>"

definition set_header :: "string \<Rightarrow> string \<Rightarrow> json_response \<Rightarrow> json_response" where
  "set_header name v resp = resp\<lparr>headers := AList.update name v (headers resp)\<rparr>"

text \<open>Python's \<open>str\<close> of an integer, as an f-string formats it: decimal, with a sign when negative.\<close>

fun str_nat :: "nat \<Rightarrow> string" where
  "str_nat n =
    (if n < 10 then [''0123456789'' ! n]
     else str_nat (n div 10) @ [''0123456789'' ! (n mod 10)])"

declare str_nat.simps [simp del]

definition str_int :: "int \<Rightarrow> string" where
  "str_int i = (if i < 0 then CHR ''-'' # str_nat (nat (- i)) else str_nat (nat i))"

text \<open>
  The key entry of one PEM text: the three fixed members, updated with the members of
  the public export (\<open>dict.update\<close>: a member that is there keeps its place and takes the
  new value, a new one goes to the end).
\<close>

definition jwks_key :: "env \<Rightarrow> string \<Rightarrow> (string \<times> string) list" where
  "jwks_key e pem =
    fold (\<lambda>kv d. AList.update (fst kv) (snd kv) d) (export_public e pem)
      [(''alg'', ''RS256''), (''use'', ''sig''), (''kid'', thumbprint e pem)]"

definition jwks_keys :: "env \<Rightarrow> (string \<times> string) list list" where
  "jwks_keys e =
    (if OIDC_RSA_PRIVATE_KEY e \<noteq> []
     then map (jwks_key e) (OIDC_RSA_PRIVATE_KEY e # OIDC_RSA_PRIVATE_KEYS_INACTIVE e)
     else [])"

text \<open>The value the view assigns to the header \<open>Cache-Control\<close> (source lines 115 to 120).\<close>

definition jwks_cache_control :: "env \<Rightarrow> string" where
  "jwks_cache_control e =
    ''Cache-Control: public, ''
    @ (''max-age='' @ str_int (OIDC_JWKS_MAX_AGE_SECONDS e) @ '', '')
    @ (''stale-while-revalidate='' @ str_int (OIDC_JWKS_MAX_AGE_SECONDS e) @ '', '')
    @ (''stale-if-error='' @ str_int (OIDC_JWKS_MAX_AGE_SECONDS e))"

definition jwks_get :: "env \<Rightarrow> json_response" where
  "jwks_get e =
    set_header ''Cache-Control'' (jwks_cache_control e)
      (set_header ''Access-Control-Allow-Origin'' ''*''
        (JsonResponse
          (JObject [(''keys'',
             JList (map (\<lambda>d. JObject (map (\<lambda>kv. (fst kv, JString (snd kv))) d)) (jwks_keys e)))])))"

text \<open>Python's \<open>a or b\<close> on strings.\<close>

definition py_or :: "string \<Rightarrow> string \<Rightarrow> string" where
  "py_or a b = (if a \<noteq> [] then a else b)"

text \<open>
  The discovery document. \<open>list(set(...))\<close> leaves the order of the claims to Python's
  set; the model keeps one order (\<open>remdups\<close>), and no theorem below depends on it.
  The names of the signing algorithms are constants of the application model class
  (\<open>RS256\<close>, \<open>HS256\<close>, as scenario 6 of the spec gives them).
\<close>

definition discovery_endpoint :: "env \<Rightarrow> string \<Rightarrow> string" where
  "discovery_endpoint e name =
    (if OIDC_ISS_ENDPOINT e = [] then build_absolute_uri e (reverse e name)
     else (urlparse_scheme e (OIDC_ISS_ENDPOINT e) @ ''://'' @ urlparse_netloc e (OIDC_ISS_ENDPOINT e))
          @ reverse e name)"

definition scopes_supported :: "env \<Rightarrow> string list" where
  "scopes_supported e = map (\<lambda>scope. scope) (get_available_scopes e)"

definition discovery_data :: "env \<Rightarrow> (string \<times> json) list" where
  "discovery_data e =
    (let issuer_url = (if OIDC_ISS_ENDPOINT e = [] then oidc_issuer e else OIDC_ISS_ENDPOINT e);
         authorization_endpoint = discovery_endpoint e ''oauth2_provider:authorize'';
         token_endpoint = discovery_endpoint e ''oauth2_provider:token'';
         userinfo_endpoint =
           py_or (OIDC_USERINFO_ENDPOINT e) (discovery_endpoint e ''oauth2_provider:user-info'');
         jwks_uri = discovery_endpoint e ''oauth2_provider:jwks-info'';
         signing_algorithms =
           (if OIDC_RSA_PRIVATE_KEY e \<noteq> [] then [''RS256'', ''HS256''] else [''HS256'']);
         oidc_claims = remdups (get_discovery_claims e);
         strs = (\<lambda>xs. JList (map JString xs))
     in
       [(''issuer'', JString issuer_url),
        (''authorization_endpoint'', JString authorization_endpoint),
        (''token_endpoint'', JString token_endpoint),
        (''userinfo_endpoint'', JString userinfo_endpoint),
        (''jwks_uri'', JString jwks_uri),
        (''scopes_supported'', strs (scopes_supported e)),
        (''response_types_supported'', strs (OIDC_RESPONSE_TYPES_SUPPORTED e)),
        (''subject_types_supported'', strs (OIDC_SUBJECT_TYPES_SUPPORTED e)),
        (''id_token_signing_alg_values_supported'', strs signing_algorithms),
        (''token_endpoint_auth_methods_supported'',
           strs (OIDC_TOKEN_ENDPOINT_AUTH_METHODS_SUPPORTED e)),
        (''claims_supported'', strs oidc_claims)]
       @ (if OIDC_RP_INITIATED_LOGOUT_ENABLED e
          then [(''end_session_endpoint'',
                 JString (discovery_endpoint e ''oauth2_provider:rp-initiated-logout''))]
          else []))"

definition discovery_get :: "env \<Rightarrow> json_response" where
  "discovery_get e =
    set_header ''Access-Control-Allow-Origin'' ''*'' (JsonResponse (JObject (discovery_data e)))"

section \<open>A concrete deployment\<close>

text \<open>
  The clients and settings of the scenarios in section 8 of the spec: the confidential
  client \<open>abc\<close> with the post-logout redirect \<open>https://app.example/done\<close> registered, a
  public client \<open>pub\<close>, and one ID token for each. The hint \<open>token-expired\<close> stands
  for a serialised token that has expired, which the loader answers with \<open>None\<close>; any
  other text is no serialised token, and the loader raises. The library functions are
  stand-ins that agree with the libraries on the URIs used here: the scheme is what
  precedes the first colon, a parameter is appended after \<open>?\<close> (or \<open>&\<close>), and the redirect
  constructor refuses a target with no scheme or with a scheme outside the list.
\<close>

definition scenario_scheme :: "string \<Rightarrow> string" where
  "scenario_scheme uri =
    (if CHR '':'' \<in> set uri then takeWhile (\<lambda>c. c \<noteq> CHR '':'') uri else [])"

definition abc_app :: application where
  "abc_app = \<lparr>app_client_id = ''abc'', client_type = ''confidential'',
     allowed_schemes = [''http'', ''https''],
     post_logout_redirect_uris = [''https://app.example/done'']\<rparr>"

definition pub_app :: application where
  "pub_app = \<lparr>app_client_id = ''pub'', client_type = ''public'',
     allowed_schemes = [''http'', ''https''],
     post_logout_redirect_uris = [''http://pub.example/bye'']\<rparr>"

definition scenario_env :: env where
  "scenario_env = \<lparr>
     OIDC_RP_INITIATED_LOGOUT_ALWAYS_PROMPT = False,
     OIDC_RP_INITIATED_LOGOUT_ENABLED = True,
     ALLOWED_REDIRECT_URI_SCHEMES = [''http'', ''https''],
     OIDC_ISS_ENDPOINT = [],
     OIDC_USERINFO_ENDPOINT = [],
     OIDC_RSA_PRIVATE_KEY = [],
     OIDC_RSA_PRIVATE_KEYS_INACTIVE = [],
     OIDC_JWKS_MAX_AGE_SECONDS = 3600,
     OIDC_RESPONSE_TYPES_SUPPORTED = [''code''],
     OIDC_SUBJECT_TYPES_SUPPORTED = [''public''],
     OIDC_TOKEN_ENDPOINT_AUTH_METHODS_SUPPORTED = [''client_secret_post''],
     load_id_token = (\<lambda>hint.
        if hint = ''token-abc-user1''
        then Inr (Some \<lparr>token_user = User 1, token_application = abc_app\<rparr>)
        else if hint = ''token-pub-user2''
        then Inr (Some \<lparr>token_user = User 2, token_application = pub_app\<rparr>)
        else if hint = ''token-expired'' then Inr None
        else Inl InvalidJWSObject),
     objects_get = (\<lambda>cid.
        if cid = ''abc'' then Some abc_app else if cid = ''pub'' then Some pub_app else None),
     urlparse_scheme = scenario_scheme,
     urlparse_netloc = (\<lambda>uri. []),
     add_params_to_uri = (\<lambda>uri params.
        uri @ concat (map (\<lambda>kv. (if CHR ''?'' \<in> set uri then ''&'' else ''?'') @ fst kv @ ''='' @ snd kv) params)),
     redirect_refused = (\<lambda>redirect_to schemes.
        scenario_scheme redirect_to = [] \<or> scenario_scheme redirect_to \<notin> set schemes),
     build_absolute_uri = (\<lambda>path. ''https://idp.example'' @ path),
     reverse = (\<lambda>name. ''/o/'' @ name),
     oidc_issuer = ''https://idp.example/o'',
     status_code = (\<lambda>err. 400),
     get_discovery_claims = [''sub''],
     get_available_scopes = [''openid'', ''openid''],
     thumbprint = (\<lambda>pem. pem),
     export_public = (\<lambda>pem. [])\<rparr>"

text \<open>
  Requests and a submitted form: the parameters of scenario 3 (client \<open>abc\<close> and its
  registered redirect URI), a hint alone (scenario 2), and a client identifier that no
  application has, as a query and as a submitted confirmation.
\<close>

definition scenario_request :: request where
  "scenario_request = \<lparr>request_user = User 1,
     GET = [''client_id'' \<mapsto> ''abc'', ''post_logout_redirect_uri'' \<mapsto> ''https://app.example/done''],
     logout_calls = 0\<rparr>"

definition silent_request :: request where
  "silent_request = \<lparr>request_user = User 1,
     GET = [''id_token_hint'' \<mapsto> ''token-abc-user1''], logout_calls = 0\<rparr>"

definition unknown_client_request :: request where
  "unknown_client_request = \<lparr>request_user = User 1,
     GET = [''client_id'' \<mapsto> ''nobody''], logout_calls = 0\<rparr>"

definition unknown_client_form :: form where
  "unknown_client_form = \<lparr>cleaned_data = [''client_id'' \<mapsto> ''nobody''], allow = True\<rparr>"

text \<open>
  The same deployment reached over plain \<open>http\<close>, with only \<open>https\<close> among the allowed
  redirect schemes of the settings.
\<close>

definition https_only_env :: env where
  "https_only_env = scenario_env\<lparr>ALLOWED_REDIRECT_URI_SCHEMES := [''https''],
     build_absolute_uri := (\<lambda>path. ''http://idp.example'' @ path)\<rparr>"

section \<open>Properties of validate\_logout\_request\<close>

lemmas vdefs = validate_logout_request_def check_id_token_hint_def requesting_application_def
  check_post_logout_redirect_uri_def

lemmas scenario_defs = scenario_env_def scenario_scheme_def abc_app_def pub_app_def
  post_logout_redirect_uri_allowed_def silent_request_def scenario_request_def
  unknown_client_request_def unknown_client_form_def

text \<open>The function succeeds exactly when its three blocks do, and then returns their results.\<close>

lemma validate_Inr_iff:
  "validate_logout_request e usr h c u = Inr (prompt, (ruri, appl)) \<longleftrightarrow>
    (\<exists>tok mp. check_id_token_hint e usr h c = Inr (tok, mp)
       \<and> requesting_application e c tok = Inr appl
       \<and> check_post_logout_redirect_uri e u appl = Inr ()
       \<and> prompt = (mp \<or> OIDC_RP_INITIATED_LOGOUT_ALWAYS_PROMPT e) \<and> ruri = u)"
  by (auto simp: validate_logout_request_def split: sum.splits prod.splits)

lemma check_id_token_hint_Inr_iff:
  "check_id_token_hint e usr h c = Inr (tok, mp) \<longleftrightarrow>
    (\<not> py_truthy h \<and> tok = None \<and> mp)
    \<or> (\<exists>hint t. h = Some hint \<and> hint \<noteq> [] \<and> load_id_token e hint = Inr (Some t)
          \<and> (py_truthy c \<longrightarrow> c = Some (app_client_id (token_application t)))
          \<and> tok = Some t \<and> mp = (token_user t \<noteq> usr))"
  by (cases h; cases c) (auto simp: check_id_token_hint_def split: option.splits sum.splits)

lemma check_post_logout_redirect_uri_application:
  "check_post_logout_redirect_uri e u appl = Inr x \<Longrightarrow> py_truthy u \<Longrightarrow> appl \<noteq> None"
  by (cases u; cases appl) (auto simp: check_post_logout_redirect_uri_def split: if_splits)

lemma validate_uri_needs_application:
  assumes "validate_logout_request e usr h c u = Inr (prompt, (ruri, appl))"
  shows "ruri = u" and "py_truthy ruri \<Longrightarrow> appl \<noteq> None"
  using assms check_post_logout_redirect_uri_application [of e u appl "()"]
  by (auto simp: validate_Inr_iff)

text \<open>
  Claim C1. Whenever \<open>validate_logout_request\<close> returns, the prompt flag it returns is
  false if and only if an ID token hint was given (a non-empty string, which is what the
  code tests), the hint loaded as an ID token whose user is the current user, and the
  setting \<open>OIDC_RP_INITIATED_LOGOUT_ALWAYS_PROMPT\<close> is off. In every other case of a
  returning call the flag is true.
\<close>

theorem validate_prompt_iff:
  assumes "validate_logout_request e usr id_token_hint cid uri = Inr (prompt, d)"
  shows "\<not> prompt \<longleftrightarrow>
    (\<exists>hint tok. id_token_hint = Some hint \<and> hint \<noteq> [] \<and> load_id_token e hint = Inr (Some tok)
       \<and> token_user tok = usr \<and> \<not> OIDC_RP_INITIATED_LOGOUT_ALWAYS_PROMPT e)"
proof -
  obtain ruri appl where d: "d = (ruri, appl)" by (cases d)
  from assms [unfolded d validate_Inr_iff]
  obtain tok mp where hint: "check_id_token_hint e usr id_token_hint cid = Inr (tok, mp)"
    and prompt: "prompt = (mp \<or> OIDC_RP_INITIATED_LOGOUT_ALWAYS_PROMPT e)"
    by blast
  from hint [unfolded check_id_token_hint_Inr_iff] prompt show ?thesis
    by (cases id_token_hint) auto
qed

theorem validate_prompt_iff_witness:
  "validate_logout_request scenario_env (User 1) (Some ''token-abc-user1'') None None
     = Inr (False, (None, Some abc_app))
   \<and> (\<exists>hint tok. Some ''token-abc-user1'' = Some hint \<and> hint \<noteq> []
         \<and> load_id_token scenario_env hint = Inr (Some tok) \<and> token_user tok = User 1
         \<and> \<not> OIDC_RP_INITIATED_LOGOUT_ALWAYS_PROMPT scenario_env)"
proof -
  have v: "validate_logout_request scenario_env (User 1) (Some ''token-abc-user1'') None None
     = Inr (False, (None, Some abc_app))"
    by (simp add: validate_logout_request_def check_id_token_hint_def
        requesting_application_def check_post_logout_redirect_uri_def scenario_env_def)
  from validate_prompt_iff [OF v] v show ?thesis by simp
qed

text \<open>
  Claim C2. A request with a client identifier and an ID token hint that loads as a
  token issued to an application with another client identifier fails with
  \<open>ClientIdMissmatch\<close>, whatever the current user and the post-logout redirect URI are:
  the comparison comes before the lookup of the application and before every check of
  the redirect URI.
\<close>

theorem client_id_mismatch:
  assumes "hint \<noteq> []" and "load_id_token e hint = Inr (Some tok)"
    and "cid \<noteq> []" and "app_client_id (token_application tok) \<noteq> cid"
  shows "validate_logout_request e usr (Some hint) (Some cid) uri = Inl ClientIdMissmatch"
  using assms by (simp add: validate_logout_request_def check_id_token_hint_def)

theorem client_id_mismatch_witness:
  "validate_logout_request scenario_env (User 1) (Some ''token-abc-user1'') (Some ''pub'')
     (Some ''https://app.example/done'') = Inl ClientIdMissmatch"
  using client_id_mismatch [of "''token-abc-user1''" scenario_env
      "\<lparr>token_user = User 1, token_application = abc_app\<rparr>" "''pub''" "User 1"
      "Some ''https://app.example/done''"]
  by (simp add: scenario_env_def abc_app_def)

text \<open>
  Claim C3. Every successful result satisfies the invariant of the decision: a
  non-empty returned redirect URI comes with a resolved application. The restatement
  "a redirect URI with no resolved client gives the failure \<open>InvalidOIDCClientError\<close>"
  holds when neither a client identifier nor a hint is given. It does not hold in
  general: the hint is checked first, so a request whose hint is an expired token (the
  loader returns \<open>None\<close>) fails with \<open>InvalidIDTokenError\<close>, although no client is
  resolved and a redirect URI is given.
\<close>

theorem invalid_client_counterexample:
  "load_id_token scenario_env ''token-expired'' = Inr None
   \<and> validate_logout_request scenario_env (User 1) (Some ''token-expired'') None
        (Some ''https://app.example/done'') = Inl InvalidIDTokenError
   \<and> validate_logout_request scenario_env (User 1) (Some ''token-expired'') None
        (Some ''https://app.example/done'') \<noteq> Inl InvalidOIDCClientError"
  by (simp add: vdefs scenario_env_def)

text \<open>
  Claim C3, as amended. A successful result with a non-empty redirect URI has its
  application resolved; a request with a redirect URI, no client identifier and no hint
  fails with \<open>InvalidOIDCClientError\<close>; and a request with a hint for which the loader
  returns no token fails with \<open>InvalidIDTokenError\<close>, whatever its other fields are.
\<close>

theorem redirect_uri_needs_application:
  "(validate_logout_request e usr h c u = Inr (prompt, (ruri, appl)) \<longrightarrow> py_truthy ruri
      \<longrightarrow> appl \<noteq> None)
   \<and> (py_truthy u \<and> \<not> py_truthy c \<and> \<not> py_truthy h
        \<longrightarrow> validate_logout_request e usr h c u = Inl InvalidOIDCClientError)
   \<and> (hint \<noteq> [] \<and> load_id_token e hint = Inr None
        \<longrightarrow> validate_logout_request e usr (Some hint) c u = Inl InvalidIDTokenError)"
proof (intro conjI impI)
  assume "validate_logout_request e usr h c u = Inr (prompt, (ruri, appl))" and "py_truthy ruri"
  then show "appl \<noteq> None" by (rule validate_uri_needs_application(2))
next
  assume "py_truthy u \<and> \<not> py_truthy c \<and> \<not> py_truthy h"
  then show "validate_logout_request e usr h c u = Inl InvalidOIDCClientError"
    by (cases u; cases c; cases h) (simp_all add: vdefs)
next
  assume "hint \<noteq> [] \<and> load_id_token e hint = Inr None"
  then show "validate_logout_request e usr (Some hint) c u = Inl InvalidIDTokenError"
    by (simp add: validate_logout_request_def check_id_token_hint_def)
qed

theorem redirect_uri_needs_application_witness:
  "validate_logout_request scenario_env (User 1) None (Some ''abc'') (Some ''https://app.example/done'')
     = Inr (True, (Some ''https://app.example/done'', Some abc_app))
   \<and> py_truthy (Some ''https://app.example/done'') \<and> Some abc_app \<noteq> None
   \<and> validate_logout_request scenario_env (User 1) None None (Some ''https://app.example/done'')
     = Inl InvalidOIDCClientError
   \<and> load_id_token scenario_env ''token-expired'' = Inr None
   \<and> validate_logout_request scenario_env (User 1) (Some ''token-expired'') (Some ''abc'')
        (Some ''https://app.example/done'') = Inl InvalidIDTokenError"
proof -
  have v: "validate_logout_request scenario_env (User 1) None (Some ''abc'')
      (Some ''https://app.example/done'')
     = Inr (True, (Some ''https://app.example/done'', Some abc_app))"
    by (simp add: vdefs scenario_defs)
  have g: "load_id_token scenario_env ''token-expired'' = Inr None"
    by (simp add: scenario_env_def)
  from redirect_uri_needs_application [of scenario_env "User 1" None "Some ''abc''"
      "Some ''https://app.example/done''" True "Some ''https://app.example/done''" "Some abc_app"]
    redirect_uri_needs_application [of scenario_env "User 1" None None
      "Some ''https://app.example/done''"]
    redirect_uri_needs_application [where e = scenario_env and usr = "User 1"
      and hint = "''token-expired''" and c = "Some ''abc''"
      and u = "Some ''https://app.example/done''"]
    v g
  show ?thesis by simp
qed

text \<open>
  Claim C4. When the first two blocks succeed and resolve an application that is not
  confidential, a redirect URI whose scheme is \<open>http\<close> fails with
  \<open>InvalidOIDCRedirectURIError\<close>. Nothing is assumed about the application's allowed
  schemes or registered URIs: the check of the scheme comes before both, so the failure
  is the same when the URI is registered.
\<close>

theorem http_needs_confidential:
  assumes "uri \<noteq> []" and "urlparse_scheme e uri = ''http''"
    and "check_id_token_hint e usr id_token_hint cid = Inr (tok, mp)"
    and "requesting_application e cid tok = Inr (Some app)"
    and "client_type app \<noteq> ''confidential''"
  shows "validate_logout_request e usr id_token_hint cid (Some uri)
    = Inl (InvalidOIDCRedirectURIError ''http is only allowed with confidential clients.'')"
  using assms
  by (simp add: validate_logout_request_def check_post_logout_redirect_uri_def)

theorem http_needs_confidential_witness:
  "urlparse_scheme scenario_env ''http://pub.example/bye'' = ''http''
   \<and> check_id_token_hint scenario_env (User 2) None (Some ''pub'') = Inr (None, True)
   \<and> requesting_application scenario_env (Some ''pub'') None = Inr (Some pub_app)
   \<and> client_type pub_app \<noteq> ''confidential''
   \<and> ''http'' \<in> set (allowed_schemes pub_app)
   \<and> post_logout_redirect_uri_allowed pub_app ''http://pub.example/bye''
   \<and> validate_logout_request scenario_env (User 2) None (Some ''pub'') (Some ''http://pub.example/bye'')
     = Inl (InvalidOIDCRedirectURIError ''http is only allowed with confidential clients.'')"
proof -
  have 1: "urlparse_scheme scenario_env ''http://pub.example/bye'' = ''http''"
    by (simp add: scenario_env_def scenario_scheme_def)
  have 2: "check_id_token_hint scenario_env (User 2) None (Some ''pub'') = Inr (None, True)"
    by (simp add: check_id_token_hint_def)
  have 3: "requesting_application scenario_env (Some ''pub'') None = Inr (Some pub_app)"
    by (simp add: requesting_application_def scenario_env_def)
  have 4: "client_type pub_app \<noteq> ''confidential''"
    by (simp add: pub_app_def)
  have 5: "''http'' \<in> set (allowed_schemes pub_app)
      \<and> post_logout_redirect_uri_allowed pub_app ''http://pub.example/bye''"
    by (simp add: pub_app_def post_logout_redirect_uri_allowed_def)
  from http_needs_confidential [OF _ 1 2 3 4] 1 2 3 4 5 show ?thesis by simp
qed

section \<open>Properties of the logout view\<close>

lemma scenario3:
  "validate_logout_request scenario_env (User 1) None (Some ''abc'')
      (Some ''https://app.example/done'')
     = Inr (True, (Some ''https://app.example/done'', Some abc_app))"
  by (simp add: vdefs scenario_defs)

lemma scenario2:
  "validate_logout_request scenario_env (User 1) (Some ''token-abc-user1'') None None
      = Inr (False, (None, Some abc_app))"
  by (simp add: vdefs scenario_defs)

text \<open>
  Claim C5. \<open>do_logout\<close> is called with the redirect URI and the application that
  \<open>validate_logout_request\<close> returned. For every such call the session is ended and the
  redirect response is built from these arguments: the URI with \<open>state\<close> added as a query
  parameter (by \<open>add_params_to_uri\<close>) when both are non-empty, the bare URI when only the
  URI is, both with the application's allowed schemes; and the root address of the
  provider (\<open>build_absolute_uri("/")\<close>) with the setting \<open>ALLOWED_REDIRECT_URI_SCHEMES\<close>
  when there is no redirect URI. The response is the redirect to that target unless the
  constructor refuses it, in which case \<open>DisallowedRedirect\<close> leaves the view.
\<close>

theorem do_logout_redirect:
  assumes "validate_logout_request e usr h c u = Inr (prompt, (ruri, appl))"
  shows "(py_truthy ruri \<and> py_truthy state \<longrightarrow>
            (\<exists>uri st app. ruri = Some uri \<and> state = Some st \<and> appl = Some app
               \<and> do_logout e req appl ruri state
                 = (OAuth2ResponseRedirect_init e (add_params_to_uri e uri [(''state'', st)])
                      (allowed_schemes app), logout req)))
       \<and> (py_truthy ruri \<and> \<not> py_truthy state \<longrightarrow>
            (\<exists>uri app. ruri = Some uri \<and> appl = Some app
               \<and> do_logout e req appl ruri state
                 = (OAuth2ResponseRedirect_init e uri (allowed_schemes app), logout req)))
       \<and> (\<not> py_truthy ruri \<longrightarrow>
            do_logout e req appl ruri state
              = (OAuth2ResponseRedirect_init e (build_absolute_uri e ''/'')
                   (ALLOWED_REDIRECT_URI_SCHEMES e), logout req))
       \<and> (\<forall>target schemes. OAuth2ResponseRedirect_init e target schemes
              = (if redirect_refused e target schemes then Inl DisallowedRedirect
                 else Inr (OAuth2ResponseRedirect target schemes)))"
proof -
  from assms have inv: "py_truthy ruri \<Longrightarrow> appl \<noteq> None"
    by (rule validate_uri_needs_application(2))
  have "\<forall>target schemes. OAuth2ResponseRedirect_init e target schemes
              = (if redirect_refused e target schemes then Inl DisallowedRedirect
                 else Inr (OAuth2ResponseRedirect target schemes))"
    by (simp add: OAuth2ResponseRedirect_init_def)
  moreover have "(py_truthy ruri \<and> py_truthy state \<longrightarrow>
            (\<exists>uri st app. ruri = Some uri \<and> state = Some st \<and> appl = Some app
               \<and> do_logout e req appl ruri state
                 = (OAuth2ResponseRedirect_init e (add_params_to_uri e uri [(''state'', st)])
                      (allowed_schemes app), logout req)))
       \<and> (py_truthy ruri \<and> \<not> py_truthy state \<longrightarrow>
            (\<exists>uri app. ruri = Some uri \<and> appl = Some app
               \<and> do_logout e req appl ruri state
                 = (OAuth2ResponseRedirect_init e uri (allowed_schemes app), logout req)))
       \<and> (\<not> py_truthy ruri \<longrightarrow>
            do_logout e req appl ruri state
              = (OAuth2ResponseRedirect_init e (build_absolute_uri e ''/'')
                   (ALLOWED_REDIRECT_URI_SCHEMES e), logout req))"
    using inv
    by (cases ruri; cases appl; cases state) (auto simp: do_logout_def Let_def)
  ultimately show ?thesis by blast
qed

theorem do_logout_redirect_witness:
  "validate_logout_request scenario_env (User 1) None (Some ''abc'')
      (Some ''https://app.example/done'')
     = Inr (True, (Some ''https://app.example/done'', Some abc_app))
   \<and> do_logout scenario_env scenario_request (Some abc_app) (Some ''https://app.example/done'')
        (Some ''xyz'')
     = (Inr (OAuth2ResponseRedirect ''https://app.example/done?state=xyz'' [''http'', ''https'']),
        logout scenario_request)
   \<and> do_logout scenario_env scenario_request (Some abc_app) (Some ''https://app.example/done'') None
     = (Inr (OAuth2ResponseRedirect ''https://app.example/done'' [''http'', ''https'']),
        logout scenario_request)
   \<and> validate_logout_request scenario_env (User 1) (Some ''token-abc-user1'') None None
      = Inr (False, (None, Some abc_app))
   \<and> do_logout scenario_env silent_request (Some abc_app) None (Some ''xyz'')
     = (Inr (OAuth2ResponseRedirect ''https://idp.example/'' [''http'', ''https'']),
        logout silent_request)"
proof -
  have a: "add_params_to_uri scenario_env ''https://app.example/done'' [(''state'', ''xyz'')]
      = ''https://app.example/done?state=xyz''"
    by (simp add: scenario_env_def)
  have s: "allowed_schemes abc_app = [''http'', ''https'']"
    by (simp add: abc_app_def)
  have b: "build_absolute_uri scenario_env ''/'' = ''https://idp.example/''"
    "ALLOWED_REDIRECT_URI_SCHEMES scenario_env = [''http'', ''https'']"
    by (simp_all add: scenario_env_def)
  have r: "\<not> redirect_refused scenario_env ''https://app.example/done?state=xyz'' [''http'', ''https'']"
    "\<not> redirect_refused scenario_env ''https://app.example/done'' [''http'', ''https'']"
    "\<not> redirect_refused scenario_env ''https://idp.example/'' [''http'', ''https'']"
    by (simp_all add: scenario_env_def scenario_scheme_def)
  from do_logout_redirect [OF scenario3, of "Some ''xyz''" scenario_request]
    do_logout_redirect [OF scenario3, of None scenario_request]
    do_logout_redirect [OF scenario2, of "Some ''xyz''" silent_request]
    scenario3 scenario2 a s b r
  show ?thesis by simp
qed

text \<open>The two entry points, with the \<open>try\<close> resolved.\<close>

lemma get_unfold:
  "get e req =
    (case validate_logout_request e (request_user req) (GET req ''id_token_hint'')
            (GET req ''client_id'') (GET req ''post_logout_redirect_uri'') of
       Inl err \<Rightarrow> ((if is_OIDCError err then Inr (error_response e err) else Inl err), req)
     | Inr (prompt, (redirect_uri, appl)) \<Rightarrow>
         if \<not> prompt then do_logout e req appl redirect_uri (GET req ''state'')
         else (Inr (ConfirmResponse
                 [(''id_token_hint'', GET req ''id_token_hint''),
                  (''client_id'', GET req ''client_id''),
                  (''post_logout_redirect_uri'', GET req ''post_logout_redirect_uri''),
                  (''state'', GET req ''state'')] appl), req))"
  by (simp add: get_def except_OIDCError_def Let_def split: sum.splits)

lemma form_valid_unfold:
  "form_valid e req frm =
    (case validate_logout_request e (request_user req) (cleaned_data frm ''id_token_hint'')
            (cleaned_data frm ''client_id'') (cleaned_data frm ''post_logout_redirect_uri'') of
       Inl err \<Rightarrow> ((if is_OIDCError err then Inr (error_response e err) else Inl err), req)
     | Inr (prompt, (redirect_uri, appl)) \<Rightarrow>
         if \<not> prompt \<or> allow frm
         then except_OIDCError e (do_logout e req appl redirect_uri (cleaned_data frm ''state''))
         else (Inr (error_response e LogoutDenied), req))"
  by (simp add: form_valid_def except_OIDCError_def Let_def split: sum.splits prod.splits)

text \<open>
  A failure of the validation leaves the request as it was, in both entry points, and
  an \<open>OIDCError\<close> is handed back as the rendered error.
\<close>

lemma validation_failure_keeps_request:
  "validate_logout_request e (request_user req) (GET req ''id_token_hint'')
       (GET req ''client_id'') (GET req ''post_logout_redirect_uri'') = Inl err
   \<Longrightarrow> get e req = ((if is_OIDCError err then Inr (error_response e err) else Inl err), req)"
  "validate_logout_request e (request_user req) (cleaned_data frm ''id_token_hint'')
       (cleaned_data frm ''client_id'') (cleaned_data frm ''post_logout_redirect_uri'') = Inl err
   \<Longrightarrow> form_valid e req frm
       = ((if is_OIDCError err then Inr (error_response e err) else Inl err), req)"
  by (simp_all add: get_unfold form_valid_unfold)

text \<open>
  When the constructor refuses the root address, \<open>do_logout\<close> fails after the session
  has been ended.
\<close>

lemma do_logout_refused:
  assumes "redirect_refused e (build_absolute_uri e ''/'') (ALLOWED_REDIRECT_URI_SCHEMES e)"
  shows "do_logout e req appl None state = (Inl DisallowedRedirect, logout req)"
  using assms by (simp add: do_logout_def OAuth2ResponseRedirect_init_def)

lemma disallowed_redirect_after_logout:
  "get https_only_env silent_request = (Inl DisallowedRedirect, logout silent_request)"
proof -
  have v: "validate_logout_request https_only_env (User 1) (Some ''token-abc-user1'') None None
      = Inr (False, (None, Some abc_app))"
    by (simp add: vdefs https_only_env_def scenario_env_def)
  have r: "redirect_refused https_only_env (build_absolute_uri https_only_env ''/'')
      (ALLOWED_REDIRECT_URI_SCHEMES https_only_env)"
    by (simp add: https_only_env_def scenario_env_def scenario_scheme_def)
  from v do_logout_refused [OF r, of silent_request "Some abc_app" None]
  show ?thesis by (simp add: get_unfold silent_request_def)
qed

text \<open>
  Claim C6. The claim is that every failing path of both entry points returns an error
  response and leaves the session as it was. The code does otherwise. A submitted
  confirmation with a client identifier that no application has fails in the lookup
  with \<open>DoesNotExist\<close>, which the \<open>except\<close> clause of \<open>form_valid\<close> does not catch: the
  exception leaves the view and no error response is returned (the session is not
  ended on this path). It is the defect of claim C7, at the second entry point.
\<close>

theorem unknown_client_confirmation_escapes:
  "cleaned_data unknown_client_form ''client_id'' = Some ''nobody''
   \<and> objects_get scenario_env ''nobody'' = None
   \<and> form_valid scenario_env unknown_client_request unknown_client_form
       = (Inl DoesNotExist, unknown_client_request)
   \<and> fst (form_valid scenario_env unknown_client_request unknown_client_form)
       \<noteq> Inr (error_response scenario_env DoesNotExist)"
  by (simp add: form_valid_def except_OIDCError_def vdefs scenario_env_def
      unknown_client_request_def unknown_client_form_def)

theorem unknown_client_confirmation_escapes_witness:
  "snd (form_valid scenario_env unknown_client_request unknown_client_form)
     = unknown_client_request
   \<and> fst (form_valid scenario_env unknown_client_request unknown_client_form)
     = Inl DoesNotExist"
  using unknown_client_confirmation_escapes by simp

text \<open>
  Claim C7. The claim is that every failure of a logout request, a client identifier
  that no application has included, ends in the rendered error response. The code does
  otherwise for that input: the lookup \<open>objects.get\<close> raises \<open>DoesNotExist\<close>, which is not
  an \<open>OIDCError\<close>, so the \<open>except\<close> clause of \<open>get\<close> does not catch it and no error response
  is rendered; the exception leaves the view.
\<close>

theorem unknown_client_id_escapes:
  "objects_get scenario_env ''nobody'' = None
   \<and> get scenario_env unknown_client_request = (Inl DoesNotExist, unknown_client_request)
   \<and> \<not> is_OIDCError DoesNotExist"
  by (simp add: get_def except_OIDCError_def vdefs scenario_env_def unknown_client_request_def)

section \<open>Properties of the JWKS and discovery documents\<close>

lemma str_nat_3600: "str_nat 3600 = ''3600''"
  by (simp add: str_nat.simps [of 3600] str_nat.simps [of 360] str_nat.simps [of 36]
      str_nat.simps [of 3])

text \<open>
  For every configured value, the header value is the text \<open>Cache-Control: \<close> followed by
  the four directives.
\<close>

lemma jwks_cache_control_header:
  "map_of (headers (jwks_get e)) ''Cache-Control''
     = Some (''Cache-Control: '' @ ''public, max-age='' @ str_int (OIDC_JWKS_MAX_AGE_SECONDS e)
         @ '', stale-while-revalidate='' @ str_int (OIDC_JWKS_MAX_AGE_SECONDS e)
         @ '', stale-if-error='' @ str_int (OIDC_JWKS_MAX_AGE_SECONDS e))"
  by (simp add: jwks_get_def set_header_def JsonResponse_def jwks_cache_control_def)

text \<open>
  Claim C8. The claim is that the value of the header \<open>Cache-Control\<close> of the JWKS
  response is \<open>public\<close> and the three directives, each with the configured number of
  seconds, and nothing else. With 3600 seconds configured, the code sets a value that
  starts with the header's own name: the name is written into the value as well.
\<close>

theorem jwks_cache_control_value:
  "OIDC_JWKS_MAX_AGE_SECONDS scenario_env = 3600
   \<and> map_of (headers (jwks_get scenario_env)) ''Cache-Control''
     = Some ''Cache-Control: public, max-age=3600, stale-while-revalidate=3600, stale-if-error=3600''"
  by (simp add: jwks_get_def set_header_def JsonResponse_def jwks_cache_control_def str_int_def
      str_nat_3600 scenario_env_def)

text \<open>
  Claim C9. The claim is that \<open>scopes_supported\<close> is a deduplicated list. The code copies
  the list of the scopes backend as it is: with the scope \<open>openid\<close> returned twice, the
  document lists it twice.
\<close>

theorem scopes_not_deduplicated_counterexample:
  "get_available_scopes scenario_env = [''openid'', ''openid'']
   \<and> scopes_supported scenario_env = [''openid'', ''openid'']
   \<and> \<not> distinct (scopes_supported scenario_env)
   \<and> map_of (discovery_data scenario_env) ''scopes_supported''
       = Some (JList [JString ''openid'', JString ''openid''])"
  by (simp add: scopes_supported_def discovery_data_def scenario_env_def Let_def)

text \<open>
  Claim C9, as amended. The field \<open>scopes_supported\<close> of the discovery document is the
  list the scopes backend returns, in the same order and with the same repetitions; it
  is free of duplicates exactly when the backend's list is.
\<close>

theorem scopes_supported_unchanged:
  "scopes_supported e = get_available_scopes e
   \<and> map_of (discovery_data e) ''scopes_supported''
       = Some (JList (map JString (get_available_scopes e)))
   \<and> (distinct (scopes_supported e) \<longleftrightarrow> distinct (get_available_scopes e))"
  by (simp add: scopes_supported_def discovery_data_def Let_def)

section \<open>Empty strings\<close>

text \<open>Parameters that Python takes as false, absent or empty, give the same decision.\<close>

lemma falsy_parameters:
  assumes "\<not> py_truthy h" and "\<not> py_truthy c" and "\<not> py_truthy u"
  shows "validate_logout_request e usr h c u = Inr (True, (u, None))"
  using assms by (cases h; cases c; cases u) (simp_all add: vdefs)

text \<open>
  Claim C10. For every current user and every deployment, the call with the empty
  string for \<open>id_token_hint\<close>, \<open>client_id\<close> and \<open>post_logout_redirect_uri\<close> raises nothing
  and returns the decision of the call with all three absent: the prompt flag is true
  and no application is resolved. The result does not depend on what the token loader
  or the application lookup would return, so neither is consulted. The redirect URI is
  handed back as it came in, empty instead of absent; Python takes both as false, and
  \<open>do_logout\<close> treats them alike.
\<close>

theorem empty_strings_as_absent:
  "validate_logout_request e usr (Some []) (Some []) (Some []) = Inr (True, (Some [], None))
   \<and> validate_logout_request e usr None None None = Inr (True, (None, None))
   \<and> \<not> py_truthy (Some [])
   \<and> do_logout e req None (Some []) state = do_logout e req None None state"
  by (simp add: vdefs do_logout_def)

end
